theory Spec2Isabelle
  imports Main "HOL-Library.AList" "HOL-Library.Multiset"
begin

section \<open>Python values, exceptions and the library\<close>

text \<open>
  The values \<open>json.loads\<close> produces. A JSON object is a Python dict, kept as the list of
  its items (keys distinct, as \<open>json.loads\<close> builds them). Every number raises in each
  operation the program applies to a value, so one constructor stands for all of them.
\<close>

datatype json =
    JNull
  | JBool bool
  | JNum int
  | JStr string
  | JArr "json list"
  | JObj "(string \<times> json) list"

text \<open>The exceptions that can end a workflow; none of them is caught anywhere.\<close>

datatype error =
    KeyError
  | TypeError
  | AttributeError
  | JSONDecodeError
  | UnicodeDecodeError
  | OSError
  | URLError

type_synonym bytes = string
type_synonym path = string

text \<open>An \<open>urllib.request.Request\<close>: the three attributes the program sets.\<close>

record http_request =
  url :: string
  data :: "bytes option"
  headers :: "(string \<times> string) list"

text \<open>
  Everything the program reaches outside its own code: \<open>json.loads\<close>, \<open>json.dumps\<close>,
  \<open>bytes.decode\<close>, \<open>str.encode\<close>, \<open>urlopen\<close> followed by \<open>resp.read()\<close> (the remote
  node, with a state of its own), \<open>Path.read_bytes\<close>, \<open>os.environ.get\<close> and the usage
  text that argparse formats.
\<close>

record 's env =
  loads :: "string \<Rightarrow> error + json"
  dumps :: "json \<Rightarrow> string"
  decode :: "bytes \<Rightarrow> error + string"
  encode :: "string \<Rightarrow> bytes"
  urlopen :: "http_request \<Rightarrow> 's \<Rightarrow> (error + bytes) \<times> 's"
  read_bytes :: "path \<Rightarrow> error + bytes"
  environ :: "string \<Rightarrow> string option"
  usage :: string

text \<open>
  What a run changes: the remote node's state, the requests handed to \<open>urlopen\<close> (oldest
  first), the lines printed, and the strings written to the error stream.
\<close>

record 's world =
  server :: 's
  sent :: "http_request list"
  stdout :: "string list"
  stderr :: "string list"

text \<open>\<open>args\<close>: the two global options every function reads.\<close>

record args =
  host :: "string option"
  auth :: "string option"

text \<open>One element of \<open>fee_recipient_data\<close> after line 26.\<close>

record entry =
  validating_pubkey :: string
  ethaddress :: string

subsection \<open>Operations on values\<close>

text \<open>
  \<open>str.lower\<close> on ASCII text: the twenty-six capital letters go to their small
  letters, every other character stays.
\<close>

definition lower_char :: "char \<Rightarrow> char" where
  "lower_char c =
     (case map_of (zip ''ABCDEFGHIJKLMNOPQRSTUVWXYZ'' ''abcdefghijklmnopqrstuvwxyz'') c of
        None \<Rightarrow> c
      | Some l \<Rightarrow> l)"

definition lower :: "string \<Rightarrow> string" where
  "lower s = map lower_char s"

text \<open>\<open>v[k]\<close> with a string key: only a dict accepts it.\<close>

fun getitem :: "json \<Rightarrow> string \<Rightarrow> error + json" where
  "getitem (JObj kvs) k = (case map_of kvs k of None \<Rightarrow> Inl KeyError | Some v \<Rightarrow> Inr v)"
| "getitem _ k = Inl TypeError"

text \<open>\<open>v.lower()\<close>: only a string has the method.\<close>

fun lower_of :: "json \<Rightarrow> error + string" where
  "lower_of (JStr s) = Inr (lower s)"
| "lower_of _ = Inl AttributeError"

text \<open>\<open>for x in v\<close>: a list gives its elements, a dict its keys, a string its characters.\<close>

fun py_iter :: "json \<Rightarrow> error + json list" where
  "py_iter (JArr xs) = Inr xs"
| "py_iter (JObj kvs) = Inr (map (\<lambda>kv. JStr (fst kv)) kvs)"
| "py_iter (JStr s) = Inr (map (\<lambda>c. JStr [c]) s)"
| "py_iter _ = Inl TypeError"

text \<open>\<open>v[k].lower()\<close>.\<close>

definition lower_field :: "json \<Rightarrow> string \<Rightarrow> error + string" where
  "lower_field v k = (case getitem v k of Inl e \<Rightarrow> Inl e | Inr x \<Rightarrow> lower_of x)"

text \<open>How an f-string prints an optional string.\<close>

fun str_opt :: "string option \<Rightarrow> string" where
  "str_opt None = ''None''"
| "str_opt (Some s) = s"

text \<open>Truth value of \<open>bytes | None\<close> and of \<open>str | None\<close>: \<open>None\<close> and the empty one are false.\<close>

fun truthy :: "string option \<Rightarrow> bool" where
  "truthy None = False"
| "truthy (Some s) = (s \<noteq> [])"

definition print :: "string \<Rightarrow> 's world \<Rightarrow> 's world" where
  "print s w = w\<lparr>stdout := stdout w @ [s]\<rparr>"

definition thematic_break :: string where
  "thematic_break = replicate 70 (CHR ''-'')"

definition api_host_env_key :: string where
  "api_host_env_key = ''ETH_KEYMANAGER_API_HOST''"

definition api_auth_env_key :: string where
  "api_auth_env_key = ''ETH_KEYMANAGER_API_AUTH''"

section \<open>The HTTP request helper\<close>

definition add_header :: "http_request \<Rightarrow> string \<Rightarrow> string \<Rightarrow> http_request" where
  "add_header req k v = req\<lparr>headers := AList.update k v (headers req)\<rparr>"

text \<open>Lines 9 to 15 of \<open>request\<close>: the request object handed to \<open>urlopen\<close>.\<close>

definition build_request :: "args \<Rightarrow> string \<Rightarrow> bytes option \<Rightarrow> http_request" where
  "build_request a resource dat =
     (let req = \<lparr>url = str_opt (host a) @ resource, data = dat, headers = []\<rparr>;
          req = add_header req ''authorization'' (''Bearer '' @ str_opt (auth a))
      in if truthy dat
         then add_header (add_header req ''accept'' ''*/*'') ''content-type'' ''application/json''
         else add_header req ''accept'' ''application/json'')"

text \<open>
  Modelled from the spec: the HTTP method, which \<open>urllib.request.Request.get_method\<close>
  chooses and the repository does not: POST when the request carries a body, GET when
  it carries none.
\<close>

definition get_method :: "http_request \<Rightarrow> string" where
  "get_method req = (if data req = None then ''GET'' else ''POST'')"

text \<open>
  \<open>request\<close>, lines 8 to 21. The value returned is a Python string (\<open>JStr\<close>) when a true
  body was given, and the parsed response otherwise.
\<close>

definition request ::
  "'s env \<Rightarrow> args \<Rightarrow> string \<Rightarrow> bytes option \<Rightarrow> 's world \<Rightarrow> (error + json) \<times> 's world" where
  "request env a resource dat w =
     (let req = build_request a resource dat;
          (r, s') = urlopen env req (server w);
          w' = w\<lparr>server := s', sent := sent w @ [req]\<rparr>
      in case r of
           Inl e \<Rightarrow> (Inl e, w')
         | Inr content_bytes \<Rightarrow>
             (case decode env content_bytes of
                Inl e \<Rightarrow> (Inl e, w')
              | Inr content_str \<Rightarrow>
                  if truthy dat then (Inr (JStr content_str), w')
                  else (loads env content_str, w')))"

section \<open>The managed validators\<close>

text \<open>
  The set comprehension of lines 30 and 64. The set is kept as a list without
  duplicates; membership is \<open>\<in> set\<close>.
\<close>

fun lower_pubkeys :: "json list \<Rightarrow> error + string list" where
  "lower_pubkeys [] = Inr []"
| "lower_pubkeys (v # vs) =
     (case lower_field v ''validating_pubkey'' of
        Inl e \<Rightarrow> Inl e
      | Inr k \<Rightarrow> (case lower_pubkeys vs of Inl e \<Rightarrow> Inl e | Inr ks \<Rightarrow> Inr (k # ks)))"

definition managed_of :: "json \<Rightarrow> error + string list" where
  "managed_of resp_obj =
     (case getitem resp_obj ''data'' of
        Inl e \<Rightarrow> Inl e
      | Inr d \<Rightarrow>
          (case py_iter d of
             Inl e \<Rightarrow> Inl e
           | Inr vs \<Rightarrow> (case lower_pubkeys vs of Inl e \<Rightarrow> Inl e | Inr ks \<Rightarrow> Inr (remdups ks))))"

text \<open>
  Lines 29 to 33, and again 63 to 67: fetch the managed validators and print them.
  Python leaves the order in which a set is iterated open; the model prints the
  elements in the order \<open>remdups\<close> keeps.
\<close>

definition show_managed ::
  "'s env \<Rightarrow> args \<Rightarrow> 's world \<Rightarrow> (error + string list) \<times> 's world" where
  "show_managed env a w =
     (case request env a ''/eth/v1/keystores'' None w of
        (Inl e, w1) \<Rightarrow> (Inl e, w1)
      | (Inr resp_obj, w1) \<Rightarrow>
          (case managed_of resp_obj of
             Inl e \<Rightarrow> (Inl e, w1)
           | Inr managed_keystores \<Rightarrow>
               (Inr managed_keystores,
                foldl (\<lambda>w v. print v w)
                  (print ''The node manages the following validators:'' w1)
                  managed_keystores)))"

section \<open>Fee-recipient synchronisation\<close>

text \<open>Line 26: the list comprehension that lower-cases both fields of every element.\<close>

fun lower_entries :: "json list \<Rightarrow> error + entry list" where
  "lower_entries [] = Inr []"
| "lower_entries (d # ds) =
     (case lower_field d ''validating_pubkey'' of
        Inl e \<Rightarrow> Inl e
      | Inr k \<Rightarrow>
          (case lower_field d ''ethaddress'' of
             Inl e \<Rightarrow> Inl e
           | Inr ad \<Rightarrow>
               (case lower_entries ds of
                  Inl e \<Rightarrow> Inl e
                | Inr es \<Rightarrow> Inr (\<lparr>validating_pubkey = k, ethaddress = ad\<rparr> # es))))"

text \<open>Lines 25 and 26.\<close>

definition load_entries :: "'s env \<Rightarrow> path \<Rightarrow> error + entry list" where
  "load_entries env file =
     (case read_bytes env file of
        Inl e \<Rightarrow> Inl e
      | Inr b \<Rightarrow>
          (case decode env b of
             Inl e \<Rightarrow> Inl e
           | Inr text \<Rightarrow>
               (case loads env text of
                  Inl e \<Rightarrow> Inl e
                | Inr j \<Rightarrow> (case py_iter j of Inl e \<Rightarrow> Inl e | Inr ds \<Rightarrow> lower_entries ds))))"

definition feerecipient_path :: "string \<Rightarrow> string" where
  "feerecipient_path pubkey = ''/eth/v1/validator/'' @ pubkey @ ''/feerecipient''"

text \<open>Line 47: \<open>resp_obj["data"]["ethaddress"].lower()\<close>.\<close>

definition old_ethaddress_of :: "json \<Rightarrow> error + string" where
  "old_ethaddress_of resp_obj =
     (case getitem resp_obj ''data'' of Inl e \<Rightarrow> Inl e | Inr d \<Rightarrow> lower_field d ''ethaddress'')"

text \<open>Lines 43 to 54: the body of the second loop, for one entry.\<close>

definition sync_entry ::
  "'s env \<Rightarrow> args \<Rightarrow> entry \<Rightarrow> 's world \<Rightarrow> (error + unit) \<times> 's world" where
  "sync_entry env a d w =
     (let pubkey = validating_pubkey d;
          new_ethaddress = ethaddress d
      in case request env a (feerecipient_path pubkey) None (print thematic_break w) of
           (Inl e, w1) \<Rightarrow> (Inl e, w1)
         | (Inr resp_obj, w1) \<Rightarrow>
             (case old_ethaddress_of resp_obj of
                Inl e \<Rightarrow> (Inl e, w1)
              | Inr old_ethaddress \<Rightarrow>
                  (let w2 = print (''Configuring '' @ pubkey @ ''...'') w1
                   in if old_ethaddress = new_ethaddress
                      then (Inr (), print ''Fee recipient already in sync'' w2)
                      else
                        (let req_data =
                               encode env (dumps env (JObj [(''ethaddress'', JStr new_ethaddress)]))
                         in case request env a (feerecipient_path pubkey) (Some req_data) w2 of
                              (Inl e, w3) \<Rightarrow> (Inl e, w3)
                            | (Inr u, w3) \<Rightarrow>
                                (Inr (),
                                 print (''Fee recipient updated. Previously '' @ old_ethaddress
                                          @ ''. Now '' @ new_ethaddress) w3)))))"

text \<open>Lines 42 to 54: the loop; an exception in one entry ends it.\<close>

fun sync_all ::
  "'s env \<Rightarrow> args \<Rightarrow> entry list \<Rightarrow> 's world \<Rightarrow> (error + unit) \<times> 's world" where
  "sync_all env a [] w = (Inr (), w)"
| "sync_all env a (d # ds) w =
     (case sync_entry env a d w of
        (Inl e, w') \<Rightarrow> (Inl e, w')
      | (Inr u, w') \<Rightarrow> sync_all env a ds w')"

definition unmanaged_message :: "string \<Rightarrow> string" where
  "unmanaged_message pubkey =
     ''ERROR: Validator '' @ pubkey @ '' is not managed by the connected node.'' @ [CHR 0x0A]"

text \<open>
  \<open>set_fee_recipients\<close>, lines 23 to 58. The first loop (lines 36 to 39) returns at the
  first entry it finds unmanaged, which is what \<open>find\<close> looks for.
\<close>

definition set_fee_recipients ::
  "'s env \<Rightarrow> args \<Rightarrow> path \<Rightarrow> 's world \<Rightarrow> (error + int) \<times> 's world" where
  "set_fee_recipients env a file w =
     (case load_entries env file of
        Inl e \<Rightarrow> (Inl e, w)
      | Inr fee_recipient_data \<Rightarrow>
          (case show_managed env a w of
             (Inl e, w1) \<Rightarrow> (Inl e, w1)
           | (Inr managed_keystores, w1) \<Rightarrow>
               (case find (\<lambda>d. validating_pubkey d \<notin> set managed_keystores) fee_recipient_data of
                  Some d \<Rightarrow>
                    (Inr 1, w1\<lparr>stderr := stderr w1 @ [unmanaged_message (validating_pubkey d)]\<rparr>)
                | None \<Rightarrow>
                    (case sync_all env a fee_recipient_data w1 of
                       (Inl e, w2) \<Rightarrow> (Inl e, w2)
                     | (Inr u, w2) \<Rightarrow>
                         (Inr 0,
                          print ''Success. All fee recipients synchronized.''
                            (print thematic_break w2))))))"

section \<open>Keystore import\<close>

text \<open>Lines 74 and 75: the \<open>pubkey\<close> field, with \<open>0x\<close> put in front when it is not there.\<close>

definition startswith :: "string \<Rightarrow> string \<Rightarrow> bool" where
  "startswith s p = (take (length p) s = p)"

fun normalized_pubkey :: "json \<Rightarrow> error + string" where
  "normalized_pubkey (JStr pubkey) =
     Inr (if startswith pubkey ''0x'' then pubkey else ''0x'' @ pubkey)"
| "normalized_pubkey _ = Inl AttributeError"

text \<open>Lines 72 to 75: the file's text and its normalised pubkey.\<close>

definition read_keystore :: "'s env \<Rightarrow> path \<Rightarrow> error + (string \<times> string)" where
  "read_keystore env p =
     (case read_bytes env p of
        Inl e \<Rightarrow> Inl e
      | Inr b \<Rightarrow>
          (case decode env b of
             Inl e \<Rightarrow> Inl e
           | Inr text \<Rightarrow>
               (case loads env text of
                  Inl e \<Rightarrow> Inl e
                | Inr dat \<Rightarrow>
                    (case getitem dat ''pubkey'' of
                       Inl e \<Rightarrow> Inl e
                     | Inr v \<Rightarrow>
                         (case normalized_pubkey v of
                            Inl e \<Rightarrow> Inl e
                          | Inr pubkey \<Rightarrow> Inr (text, pubkey))))))"

text \<open>Line 80: the body of the import request.\<close>

definition import_body :: "'s env \<Rightarrow> string \<Rightarrow> string \<Rightarrow> bytes" where
  "import_body env text keystore_passwd =
     encode env (dumps env
       (JObj [(''keystores'', JArr [JStr text]), (''passwords'', JArr [JStr keystore_passwd])]))"

text \<open>Lines 71 to 82: the body of the loop, for one file.\<close>

definition import_one ::
  "'s env \<Rightarrow> args \<Rightarrow> string \<Rightarrow> string list \<Rightarrow> path \<Rightarrow> 's world \<Rightarrow> (error + unit) \<times> 's world" where
  "import_one env a keystore_passwd managed_keystores p w =
     (let w0 = print thematic_break w
      in case read_keystore env p of
           Inl e \<Rightarrow> (Inl e, w0)
         | Inr (text, pubkey) \<Rightarrow>
             (let w1 = print (''Importing '' @ pubkey @ ''...'') w0
              in if pubkey \<in> set managed_keystores
                 then (Inr (),
                       print ''The node already manages this validating pubkey. Skipping this one.'' w1)
                 else
                   (case request env a ''/eth/v1/keystores''
                           (Some (import_body env text keystore_passwd)) w1 of
                      (Inl e, w2) \<Rightarrow> (Inl e, w2)
                    | (Inr u, w2) \<Rightarrow> (Inr (), print ''Keystore imported'' w2))))"

text \<open>Lines 70 to 82: the loop over \<open>args.keystores\<close>.\<close>

fun import_all ::
  "'s env \<Rightarrow> args \<Rightarrow> string \<Rightarrow> string list \<Rightarrow> path list \<Rightarrow> 's world \<Rightarrow> (error + unit) \<times> 's world" where
  "import_all env a pw managed [] w = (Inr (), w)"
| "import_all env a pw managed (p # ps) w =
     (case import_one env a pw managed p w of
        (Inl e, w') \<Rightarrow> (Inl e, w')
      | (Inr u, w') \<Rightarrow> import_all env a pw managed ps w')"

text \<open>\<open>import_keystores\<close>, lines 61 to 87.\<close>

definition import_keystores ::
  "'s env \<Rightarrow> args \<Rightarrow> string \<Rightarrow> path list \<Rightarrow> 's world \<Rightarrow> (error + int) \<times> 's world" where
  "import_keystores env a keystore_passwd keystores w =
     (case show_managed env a w of
        (Inl e, w1) \<Rightarrow> (Inl e, w1)
      | (Inr managed_keystores, w1) \<Rightarrow>
          (case import_all env a keystore_passwd managed_keystores keystores w1 of
             (Inl e, w2) \<Rightarrow> (Inl e, w2)
           | (Inr u, w2) \<Rightarrow>
               (Inr 0,
                print ''Success. All keystores imported.'' (print thematic_break w2))))"

section \<open>The command line\<close>

text \<open>
  What \<open>parser.parse_args()\<close> found on the command line: the two options when given,
  and the subcommand with its arguments.
\<close>

datatype command =
    SetFeeRecipients path
  | ImportKeystores string "path list"

record cmdline =
  host_opt :: "string option"
  auth_opt :: "string option"
  command :: command

text \<open>Lines 96 to 105: an option that was not given takes the environment variable.\<close>

definition parse_args :: "'s env \<Rightarrow> cmdline \<Rightarrow> args" where
  "parse_args env cl =
     \<lparr>host = (case host_opt cl of Some h \<Rightarrow> Some h | None \<Rightarrow> environ env api_host_env_key),
      auth = (case auth_opt cl of Some t \<Rightarrow> Some t | None \<Rightarrow> environ env api_auth_env_key)\<rparr>"

definition missing_message :: string where
  "missing_message =
     ''Must provide keymanager API host and auth via command line options or environment variables (''
       @ api_host_env_key @ '' and '' @ api_auth_env_key @ '')''"

text \<open>\<open>parser.error\<close>: usage and message on the error stream, exit status 2.\<close>

definition parser_error :: "'s env \<Rightarrow> string \<Rightarrow> 's world \<Rightarrow> (error + int) \<times> 's world" where
  "parser_error env msg w = (Inr 2, w\<lparr>stderr := stderr w @ [usage env, msg]\<rparr>)"

text \<open>
  Lines 126 to 133. The result is the argument of \<open>SystemExit\<close>, or the exception that
  ended the program.
\<close>

definition main :: "'s env \<Rightarrow> cmdline \<Rightarrow> 's world \<Rightarrow> (error + int) \<times> 's world" where
  "main env cl w =
     (let a = parse_args env cl
      in if \<not> truthy (auth a) \<or> \<not> truthy (host a) then parser_error env missing_message w
         else (case command cl of
                 SetFeeRecipients file \<Rightarrow> set_fee_recipients env a file w
               | ImportKeystores keystore_passwd keystores \<Rightarrow>
                   import_keystores env a keystore_passwd keystores w))"

text \<open>The exit status of the process: an exception nobody caught gives 1.\<close>

fun exit_status :: "error + int \<Rightarrow> int" where
  "exit_status (Inl e) = 1"
| "exit_status (Inr n) = n"

section \<open>What a run is observed by\<close>

text \<open>A write request is one that carries a body.\<close>

definition is_write :: "http_request \<Rightarrow> bool" where
  "is_write r = (data r \<noteq> None)"

text \<open>The requests sent while the world went from \<open>w\<close> to \<open>w'\<close>.\<close>

definition issued :: "'s world \<Rightarrow> 's world \<Rightarrow> http_request list" where
  "issued w w' = drop (length (sent w)) (sent w')"

text \<open>
  The test of line 77 for the file at \<open>p\<close>: the file reads, and its normalised pubkey is
  in the set fetched at the start.
\<close>

definition already_managed :: "'s env \<Rightarrow> string list \<Rightarrow> path \<Rightarrow> bool" where
  "already_managed env managed_keystores p =
     (case read_keystore env p of
        Inl e \<Rightarrow> False
      | Inr (text, pubkey) \<Rightarrow> pubkey \<in> set managed_keystores)"

text \<open>The request that line 81 sends for the file at \<open>p\<close>.\<close>

definition import_request :: "'s env \<Rightarrow> args \<Rightarrow> string \<Rightarrow> path \<Rightarrow> http_request" where
  "import_request env a keystore_passwd p =
     build_request a ''/eth/v1/keystores''
       (Some (import_body env
                (case read_keystore env p of Inl e \<Rightarrow> [] | Inr (text, pubkey) \<Rightarrow> text)
                keystore_passwd))"

text \<open>
  What the node in state \<open>s\<close> reports, lower-cased as line 47 does, as the fee recipient
  of the validator of entry \<open>d\<close>.
\<close>

definition remote_ethaddress :: "'s env \<Rightarrow> args \<Rightarrow> entry \<Rightarrow> 's \<Rightarrow> error + string" where
  "remote_ethaddress env a d s =
     (case fst (urlopen env (build_request a (feerecipient_path (validating_pubkey d)) None) s) of
        Inl e \<Rightarrow> Inl e
      | Inr b \<Rightarrow>
          (case decode env b of
             Inl e \<Rightarrow> Inl e
           | Inr t \<Rightarrow> (case loads env t of Inl e \<Rightarrow> Inl e | Inr resp_obj \<Rightarrow> old_ethaddress_of resp_obj)))"

section \<open>A test bench\<close>

text \<open>
  A small library and a small node, to run the workflows on. The serialiser writes what
  \<open>json.dumps\<close> writes for values whose strings are printable ASCII.
\<close>

fun digits :: "nat \<Rightarrow> string" where
  "digits n =
     (if n < 10 then [char_of (48 + n)] else digits (n div 10) @ [char_of (48 + n mod 10)])"

fun join :: "string \<Rightarrow> string list \<Rightarrow> string" where
  "join sep [] = []"
| "join sep [x] = x"
| "join sep (x # y # xs) = x @ sep @ join sep (y # xs)"

definition quote :: "string \<Rightarrow> string" where
  "quote s =
     [CHR 0x22]
       @ concat (map (\<lambda>c. if c = CHR 0x22 \<or> c = CHR 0x5C then [CHR 0x5C, c] else [c]) s)
       @ [CHR 0x22]"

fun bench_dumps :: "json \<Rightarrow> string" where
  "bench_dumps JNull = ''null''"
| "bench_dumps (JBool b) = (if b then ''true'' else ''false'')"
| "bench_dumps (JNum n) = (if n < 0 then ''-'' else []) @ digits (nat \<bar>n\<bar>)"
| "bench_dumps (JStr s) = quote s"
| "bench_dumps (JArr xs) = ''['' @ join '', '' (map bench_dumps xs) @ '']''"
| "bench_dumps (JObj kvs) =
     ''{'' @ join '', '' (map (\<lambda>(k, v). quote k @ '': '' @ bench_dumps v) kvs) @ ''}''"

text \<open>The documents of the bench, each with the value \<open>json.loads\<close> gives for it.\<close>

definition documents :: "(string \<times> json) list" where
  \<open>documents =
     [(''[{"validating_pubkey":"0xAA","ethaddress":"0xBB"}]'',
         JArr [JObj [(''validating_pubkey'', JStr ''0xAA''), (''ethaddress'', JStr ''0xBB'')]]),
      (''[{"validating_pubkey":"0xAA","ethaddress":"0xBB"},{"validating_pubkey":"0xDD","ethaddress":"0xEE"}]'',
         JArr [JObj [(''validating_pubkey'', JStr ''0xAA''), (''ethaddress'', JStr ''0xBB'')],
               JObj [(''validating_pubkey'', JStr ''0xDD''), (''ethaddress'', JStr ''0xEE'')]]),
      (''[]'', JArr []),
      (''{"data": []}'', JObj [(''data'', JArr [])]),
      (''{"data": [{"validating_pubkey": "0xaa"}]}'',
         JObj [(''data'', JArr [JObj [(''validating_pubkey'', JStr ''0xaa'')]])]),
      (''{"data": [{"validating_pubkey": "0xabc123"}]}'',
         JObj [(''data'', JArr [JObj [(''validating_pubkey'', JStr ''0xabc123'')]])]),
      (''{"data": [{"validating_pubkey": "0xabc"}]}'',
         JObj [(''data'', JArr [JObj [(''validating_pubkey'', JStr ''0xabc'')]])]),
      (''{"data": {"ethaddress": "0xCC"}}'',
         JObj [(''data'', JObj [(''ethaddress'', JStr ''0xCC'')])]),
      (''{"data": {"ethaddress": "0xbb"}}'',
         JObj [(''data'', JObj [(''ethaddress'', JStr ''0xbb'')])]),
      (''{"data": [{"status": "imported"}]}'',
         JObj [(''data'', JArr [JObj [(''status'', JStr ''imported'')]])]),
      (''{"version":4,"pubkey":"abc123"}'',
         JObj [(''version'', JNum 4), (''pubkey'', JStr ''abc123'')]),
      (''{"version":4,"pubkey":"0xABC"}'',
         JObj [(''version'', JNum 4), (''pubkey'', JStr ''0xABC'')]),
      (''{"version":4,"pubkey":"0xdef456"}'',
         JObj [(''version'', JNum 4), (''pubkey'', JStr ''0xdef456'')])]\<close>

definition bench_loads :: "string \<Rightarrow> error + json" where
  "bench_loads text = (case map_of documents text of None \<Rightarrow> Inl JSONDecodeError | Some v \<Rightarrow> Inr v)"

definition bench_files :: "(path \<times> bytes) list" where
  \<open>bench_files =
     [(''fee.json'', ''[{"validating_pubkey":"0xAA","ethaddress":"0xBB"}]''),
      (''fee-two.json'',
         ''[{"validating_pubkey":"0xAA","ethaddress":"0xBB"},{"validating_pubkey":"0xDD","ethaddress":"0xEE"}]''),
      (''empty.json'', ''[]''),
      (''keystore-abc123.json'', ''{"version":4,"pubkey":"abc123"}''),
      (''keystore-ABC.json'', ''{"version":4,"pubkey":"0xABC"}''),
      (''keystore-def456.json'', ''{"version":4,"pubkey":"0xdef456"}''),
      (''keystore-def456-copy.json'', ''{"version":4,"pubkey":"0xdef456"}'')]\<close>

text \<open>
  The node: it answers the keystore listing with a fixed text, keeps as its state the
  answer to a fee-recipient read, and replaces it when a fee recipient is written.
\<close>

definition bench_urlopen :: "bytes \<Rightarrow> http_request \<Rightarrow> bytes \<Rightarrow> (error + bytes) \<times> bytes" where
  \<open>bench_urlopen listing r s =
     (if url r = ''http://node:5052/eth/v1/keystores''
      then (Inr (case data r of None \<Rightarrow> listing | Some b \<Rightarrow> ''{"data": [{"status": "imported"}]}''), s)
      else if url r = ''http://node:5052/eth/v1/validator/0xaa/feerecipient''
      then (case data r of None \<Rightarrow> (Inr s, s) | Some b \<Rightarrow> (Inr [], ''{"data": '' @ b @ ''}''))
      else (Inl URLError, s))\<close>

definition bench :: "bytes \<Rightarrow> bytes env" where
  "bench listing =
     \<lparr>loads = bench_loads, dumps = bench_dumps, decode = Inr, encode = (\<lambda>s. s),
      urlopen = bench_urlopen listing,
      read_bytes = (\<lambda>p. case map_of bench_files p of None \<Rightarrow> Inl OSError | Some b \<Rightarrow> Inr b),
      environ = (\<lambda>k. None),
      usage = ''usage: keymanager.py [-h] [--host HOST] [--auth AUTH] {set-fee-recipients,import-keystores} ...''\<rparr>"

definition bench_args :: args where
  "bench_args = \<lparr>host = Some ''http://node:5052'', auth = Some ''secret''\<rparr>"

definition start :: "'s \<Rightarrow> 's world" where
  "start s = \<lparr>server = s, sent = [], stdout = [], stderr = []\<rparr>"

section \<open>Facts about the helper and the loops\<close>

lemma sent_print [simp]: "sent (print s w) = sent w"
  and stderr_print [simp]: "stderr (print s w) = stderr w"
  and server_print [simp]: "server (print s w) = server w"
  and stdout_print [simp]: "stdout (print s w) = stdout w @ [s]"
  by (simp_all add: print_def)

lemma foldl_print:
  "sent (foldl (\<lambda>w v. print v w) w vs) = sent w"
  "stderr (foldl (\<lambda>w v. print v w) w vs) = stderr w"
  "server (foldl (\<lambda>w v. print v w) w vs) = server w"
  "stdout (foldl (\<lambda>w v. print v w) w vs) = stdout w @ vs"
  by (induction vs arbitrary: w) simp_all

lemma request_world:
  assumes "request env a res dat w = (r, w')"
  shows "sent w' = sent w @ [build_request a res dat]"
    and "stdout w' = stdout w"
    and "stderr w' = stderr w"
    and "server w' = snd (urlopen env (build_request a res dat) (server w))"
  using assms
  by (auto simp: request_def Let_def split: prod.splits sum.splits if_splits)

lemma show_managed_world:
  assumes "show_managed env a w = (r, w1)"
  shows "sent w1 = sent w @ [build_request a ''/eth/v1/keystores'' None]"
    and "stderr w1 = stderr w"
  using assms
  by (auto simp: show_managed_def foldl_print dest: request_world split: prod.splits sum.splits)

lemma data_build_request [simp]: "data (build_request a res dat) = dat"
  by (simp add: build_request_def add_header_def Let_def)


lemma import_one_skip:
  assumes "read_keystore env p = Inr (text, pubkey)" and "pubkey \<in> set managed"
  shows "import_one env a pw managed p w =
           (Inr (), print ''The node already manages this validating pubkey. Skipping this one.''
                      (print (''Importing '' @ pubkey @ ''...'') (print thematic_break w)))"
  using assms by (simp add: import_one_def)

lemma import_one_new:
  assumes "read_keystore env p = Inr (text, pubkey)" and "pubkey \<notin> set managed"
  shows "import_one env a pw managed p w =
           (case request env a ''/eth/v1/keystores'' (Some (import_body env text pw))
                   (print (''Importing '' @ pubkey @ ''...'') (print thematic_break w)) of
              (Inl e, w2) \<Rightarrow> (Inl e, w2)
            | (Inr u, w2) \<Rightarrow> (Inr (), print ''Keystore imported'' w2))"
  using assms by (simp add: import_one_def)

lemma import_one_run:
  assumes readable: "read_keystore env p = Inr (text, pubkey)"
    and accepts: "\<forall>body w. \<exists>v w'. request env a ''/eth/v1/keystores'' (Some body) w = (Inr v, w')"
  shows "\<exists>w'. import_one env a pw managed p w = (Inr (), w')
           \<and> sent w' = sent w @ (if already_managed env managed p then [] else [import_request env a pw p])
           \<and> stderr w' = stderr w"
proof (cases "pubkey \<in> set managed")
  case True
  then show ?thesis
    using readable by (simp add: import_one_skip already_managed_def)
next
  case False
  let ?w1 = "print (''Importing '' @ pubkey @ ''...'') (print thematic_break w)"
  obtain v w2 where r: "request env a ''/eth/v1/keystores'' (Some (import_body env text pw)) ?w1 = (Inr v, w2)"
    using accepts by blast
  have "sent w2 = sent w @ [import_request env a pw p]" and "stderr w2 = stderr w"
    using request_world[OF r] readable by (simp_all add: import_request_def)
  then show ?thesis
    using readable False r by (simp add: import_one_new already_managed_def)
qed

lemma import_all_run:
  assumes readable: "\<forall>p\<in>set ps. \<exists>text pubkey. read_keystore env p = Inr (text, pubkey)"
    and accepts: "\<forall>body w. \<exists>v w'. request env a ''/eth/v1/keystores'' (Some body) w = (Inr v, w')"
  shows "\<exists>w'. import_all env a pw managed ps w = (Inr (), w')
           \<and> sent w' = sent w @ map (import_request env a pw)
                                   (filter (\<lambda>p. \<not> already_managed env managed p) ps)
           \<and> stderr w' = stderr w"
  using readable
proof (induction ps arbitrary: w)
  case Nil
  then show ?case by simp
next
  case (Cons p ps)
  then obtain t k where rd: "read_keystore env p = Inr (t, k)"
    by auto
  obtain w1 where one: "import_one env a pw managed p w = (Inr (), w1)"
    and s1: "sent w1 = sent w @ (if already_managed env managed p then [] else [import_request env a pw p])"
    and e1: "stderr w1 = stderr w"
    using import_one_run[OF rd accepts] by blast
  obtain w2 where rest: "import_all env a pw managed ps w1 = (Inr (), w2)"
    and s2: "sent w2 = sent w1 @ map (import_request env a pw)
                                   (filter (\<lambda>p. \<not> already_managed env managed p) ps)"
    and e2: "stderr w2 = stderr w1"
    using Cons.IH[of w1] Cons.prems by auto
  show ?case
    using one rest s1 s2 e1 e2 by simp
qed

lemma import_keystores_run:
  assumes fetch: "show_managed env a w = (Inr managed, w1)"
    and readable: "\<forall>p\<in>set ps. \<exists>text pubkey. read_keystore env p = Inr (text, pubkey)"
    and accepts: "\<forall>body w. \<exists>v w'. request env a ''/eth/v1/keystores'' (Some body) w = (Inr v, w')"
  shows "\<exists>w'. import_keystores env a pw ps w = (Inr 0, w')
           \<and> issued w w' = build_request a ''/eth/v1/keystores'' None
                               # map (import_request env a pw)
                                   (filter (\<lambda>p. \<not> already_managed env managed p) ps)
           \<and> stderr w' = stderr w"
proof -
  obtain w2 where rest: "import_all env a pw managed ps w1 = (Inr (), w2)"
    and s2: "sent w2 = sent w1 @ map (import_request env a pw)
                                   (filter (\<lambda>p. \<not> already_managed env managed p) ps)"
    and e2: "stderr w2 = stderr w1"
    using import_all_run[OF readable accepts] by blast
  show ?thesis
    using fetch rest s2 e2 show_managed_world[OF fetch]
    by (simp add: import_keystores_def issued_def)
qed

lemma is_write_build_request [simp]: "is_write (build_request a res dat) = (dat \<noteq> None)"
  by (simp add: is_write_def)

lemma is_write_import_request [simp]: "is_write (import_request env a pw p)"
  by (simp add: import_request_def)

lemma filter_writes_imports [simp]:
  "filter is_write (map (import_request env a pw) ps) = map (import_request env a pw) ps"
  by (induction ps) simp_all

lemma filter_reads_imports [simp]:
  "filter (\<lambda>r. \<not> is_write r) (map (import_request env a pw) ps) = []"
  by (induction ps) simp_all

lemma length_filter_not: "length (filter (\<lambda>x. \<not> P x) xs) = length xs - length (filter P xs)"
  using sum_length_filter_compl[of P xs] by simp

lemmas bench_simps =
  bench_def bench_args_def bench_loads_def bench_files_def documents_def bench_urlopen_def
  start_def show_managed_def request_def build_request_def add_header_def managed_of_def
  lower_field_def lower_def lower_char_def print_def read_keystore_def startswith_def
  already_managed_def import_request_def import_body_def quote_def load_entries_def Let_def
  remote_ethaddress_def old_ethaddress_of_def feerecipient_path_def

lemma bench_readable:
  "\<forall>p\<in>set (map fst bench_files) - {''fee.json'', ''fee-two.json'', ''empty.json''}.
     \<exists>t k. read_keystore (bench listing) p = Inr (t, k)"
  by (simp add: bench_simps)

lemma bench_accepts:
  "\<forall>body w. \<exists>v w'. request (bench listing) bench_args ''/eth/v1/keystores'' (Some body) w = (Inr v, w')"
  by (simp add: bench_simps)

lemma bench_fetch_abc123:
  \<open>show_managed (bench ''{"data": [{"validating_pubkey": "0xabc123"}]}'') bench_args (start []) =
     (Inr [''0xabc123''],
      \<lparr>server = [], sent = [build_request bench_args ''/eth/v1/keystores'' None],
       stdout = [''The node manages the following validators:'', ''0xabc123''], stderr = []\<rparr>)\<close>
  by (simp add: bench_simps)

lemma bench_fetch_none:
  \<open>show_managed (bench ''{"data": []}'') bench_args (start s) =
     (Inr [],
      \<lparr>server = s, sent = [build_request bench_args ''/eth/v1/keystores'' None],
       stdout = [''The node manages the following validators:''], stderr = []\<rparr>)\<close>
  by (simp add: bench_simps)

lemma bench_fetch_abc:
  \<open>show_managed (bench ''{"data": [{"validating_pubkey": "0xabc"}]}'') bench_args (start []) =
     (Inr [''0xabc''],
      \<lparr>server = [], sent = [build_request bench_args ''/eth/v1/keystores'' None],
       stdout = [''The node manages the following validators:'', ''0xabc''], stderr = []\<rparr>)\<close>
  by (simp add: bench_simps)

lemma read_keystore_text:
  assumes "read_keystore env p = Inr (text, pubkey)"
  shows "\<exists>b. read_bytes env p = Inr b \<and> decode env b = Inr text"
  using assms by (auto simp: read_keystore_def split: sum.splits)

lemma read_keystore_pubkey:
  assumes "read_bytes env p = Inr b" and "decode env b = Inr text" and "loads env text = Inr doc"
    and "getitem doc ''pubkey'' = Inr (JStr raw)"
  shows "read_keystore env p = Inr (text, if startswith raw ''0x'' then raw else ''0x'' @ raw)"
  using assms by (simp add: read_keystore_def)

lemma url_build_request [simp]: "url (build_request a res dat) = str_opt (host a) @ res"
  by (simp add: build_request_def add_header_def Let_def)






lemma bench_fetch_aa:
  \<open>show_managed (bench ''{"data": [{"validating_pubkey": "0xaa"}]}'') bench_args (start s) =
     (Inr [''0xaa''],
      \<lparr>server = s, sent = [build_request bench_args ''/eth/v1/keystores'' None],
       stdout = [''The node manages the following validators:'', ''0xaa''], stderr = []\<rparr>)\<close>
  by (simp add: bench_simps)


lemma bench_load_fee_two:
  "load_entries (bench listing) ''fee-two.json'' =
     Inr [\<lparr>validating_pubkey = ''0xaa'', ethaddress = ''0xbb''\<rparr>,
          \<lparr>validating_pubkey = ''0xdd'', ethaddress = ''0xee''\<rparr>]"
  by (simp add: bench_simps)





lemma find_unmanaged:
  assumes "\<exists>d\<in>set ds. validating_pubkey d \<notin> set managed"
  shows "\<exists>d. find (\<lambda>d. validating_pubkey d \<notin> set managed) ds = Some d
             \<and> d \<in> set ds \<and> validating_pubkey d \<notin> set managed"
proof (cases "find (\<lambda>d. validating_pubkey d \<notin> set managed) ds")
  case None
  then show ?thesis
    using assms by (auto simp: find_None_iff)
next
  case (Some d)
  then show ?thesis
    by (auto simp: find_Some_iff)
qed





section \<open>The claims\<close>

text \<open>
  C5. A keystore import over N files, M of which have a pubkey already in the managed
  set, sends exactly N - M write requests: one for every file that is not managed,
  whatever the others are, and the same number for every reordering of the files. The
  fetch of the managed set succeeds, every file reads with a pubkey, and the node
  accepts every import.
\<close>

theorem import_keystores_write_count:
  assumes fetch: "show_managed env a w = (Inr managed, w1)"
    and readable: "\<forall>p\<in>set ps. \<exists>text pubkey. read_keystore env p = Inr (text, pubkey)"
    and accepts: "\<forall>body w. \<exists>v w'. request env a ''/eth/v1/keystores'' (Some body) w = (Inr v, w')"
  shows "\<exists>w'. import_keystores env a pw ps w = (Inr 0, w')
           \<and> length (filter is_write (issued w w'))
               = length ps - length (filter (already_managed env managed) ps)
           \<and> (\<forall>p\<in>set ps. \<not> already_managed env managed p
                  \<longrightarrow> import_request env a pw p \<in> set (issued w w'))
           \<and> (\<forall>qs. mset qs = mset ps \<longrightarrow>
                  (\<exists>w''. import_keystores env a pw qs w = (Inr 0, w'')
                     \<and> length (filter is_write (issued w w''))
                         = length (filter is_write (issued w w'))))"
proof -
  let ?new = "\<lambda>p. \<not> already_managed env managed p"
  obtain w' where run: "import_keystores env a pw ps w = (Inr 0, w')"
    and iss: "issued w w' = build_request a ''/eth/v1/keystores'' None
                              # map (import_request env a pw) (filter ?new ps)"
    using import_keystores_run[OF fetch readable accepts] by blast
  have count: "length (filter is_write (issued w w'))
                 = length ps - length (filter (already_managed env managed) ps)"
    by (simp add: iss length_filter_not)
  have each: "\<forall>p\<in>set ps. ?new p \<longrightarrow> import_request env a pw p \<in> set (issued w w')"
    by (simp add: iss)
  have perm: "\<exists>w''. import_keystores env a pw qs w = (Inr 0, w'')
                \<and> length (filter is_write (issued w w'')) = length (filter is_write (issued w w'))"
    if eq: "mset qs = mset ps" for qs
  proof -
    have "set qs = set ps"
      using eq by (rule mset_eq_setD)
    then have rd: "\<forall>p\<in>set qs. \<exists>text pubkey. read_keystore env p = Inr (text, pubkey)"
      using readable by simp
    obtain w'' where run': "import_keystores env a pw qs w = (Inr 0, w'')"
      and iss': "issued w w'' = build_request a ''/eth/v1/keystores'' None
                                 # map (import_request env a pw) (filter ?new qs)"
      using import_keystores_run[OF fetch rd accepts] by blast
    have "length (filter ?new qs) = size (filter_mset ?new (mset qs))"
      by (simp flip: mset_filter)
    also have "\<dots> = length (filter ?new ps)"
      by (simp add: eq flip: mset_filter)
    finally show ?thesis
      using run' by (simp add: iss iss')
  qed
  show ?thesis
    using run count each perm by blast
qed

theorem import_keystores_write_count_witness:
  \<open>\<exists>w'. import_keystores (bench ''{"data": [{"validating_pubkey": "0xabc123"}]}'') bench_args ''pw''
            [''keystore-abc123.json'', ''keystore-def456.json''] (start []) = (Inr 0, w')
         \<and> length (filter is_write (issued (start []) w')) = 1\<close>
proof -
  have rd: "\<forall>p\<in>set [''keystore-abc123.json'', ''keystore-def456.json''].
              \<exists>t k. read_keystore (bench listing) p = Inr (t, k)" for listing
    using bench_readable[of listing] by (simp add: bench_files_def)
  have m1: "already_managed (bench listing) [''0xabc123''] ''keystore-abc123.json''" for listing
    by (simp add: bench_simps)
  have m2: "\<not> already_managed (bench listing) [''0xabc123''] ''keystore-def456.json''" for listing
    by (simp add: bench_simps)
  show ?thesis
    using import_keystores_write_count[OF bench_fetch_abc123 rd bench_accepts, of "''pw''"]
    by (auto simp: m1 m2)
qed

text \<open>
  C9. Within one keystore import the managed set is fetched once, as the first request,
  and every later decision is taken against that set: the requests of a run are the
  listing followed by one import request for each file, in order and with repetitions,
  whose pubkey is not in the set fetched. Two files with the same unmanaged pubkey thus
  get a request each.
\<close>

theorem import_keystores_fetches_once:
  assumes fetch: "show_managed env a w = (Inr managed, w1)"
    and readable: "\<forall>p\<in>set ps. \<exists>text pubkey. read_keystore env p = Inr (text, pubkey)"
    and accepts: "\<forall>body w. \<exists>v w'. request env a ''/eth/v1/keystores'' (Some body) w = (Inr v, w')"
  shows "\<exists>w'. import_keystores env a pw ps w = (Inr 0, w')
           \<and> issued w w' = build_request a ''/eth/v1/keystores'' None
                               # map (import_request env a pw)
                                   (filter (\<lambda>p. \<not> already_managed env managed p) ps)
           \<and> filter (\<lambda>r. \<not> is_write r) (issued w w') = [build_request a ''/eth/v1/keystores'' None]"
proof -
  obtain w' where run: "import_keystores env a pw ps w = (Inr 0, w')"
    and iss: "issued w w' = build_request a ''/eth/v1/keystores'' None
                              # map (import_request env a pw)
                                  (filter (\<lambda>p. \<not> already_managed env managed p) ps)"
    using import_keystores_run[OF fetch readable accepts] by blast
  have "filter (\<lambda>r. \<not> is_write r) (issued w w') = [build_request a ''/eth/v1/keystores'' None]"
    by (simp add: iss)
  with run iss show ?thesis by blast
qed

theorem import_keystores_fetches_once_witness:
  \<open>\<exists>w'. import_keystores (bench ''{"data": []}'') bench_args ''pw''
            [''keystore-def456.json'', ''keystore-def456-copy.json'', ''keystore-def456.json'']
            (start []) = (Inr 0, w')
         \<and> issued (start []) w' =
             [build_request bench_args ''/eth/v1/keystores'' None,
              import_request (bench ''{"data": []}'') bench_args ''pw'' ''keystore-def456.json'',
              import_request (bench ''{"data": []}'') bench_args ''pw'' ''keystore-def456-copy.json'',
              import_request (bench ''{"data": []}'') bench_args ''pw'' ''keystore-def456.json'']
         \<and> read_keystore (bench ''{"data": []}'') ''keystore-def456.json''
             = read_keystore (bench ''{"data": []}'') ''keystore-def456-copy.json''\<close>
proof -
  have rd: "\<forall>p\<in>set [''keystore-def456.json'', ''keystore-def456-copy.json'', ''keystore-def456.json''].
              \<exists>t k. read_keystore (bench listing) p = Inr (t, k)" for listing
    using bench_readable[of listing] by (simp add: bench_files_def)
  have m1: "\<not> already_managed (bench listing) [] p" for listing p
    by (simp add: already_managed_def split: sum.splits)
  have same: "read_keystore (bench listing) ''keystore-def456.json''
                = read_keystore (bench listing) ''keystore-def456-copy.json''" for listing
    by (simp add: bench_simps)
  show ?thesis
    using import_keystores_fetches_once[OF bench_fetch_none rd bench_accepts, of "''pw''"]
    by (auto simp: m1 same)
qed

text \<open>
  C4. For a keystore file that is imported (it reads, and its pubkey is not in the
  managed set), the loop body sends one request, a POST to /eth/v1/keystores whose body
  is the serialisation of \<open>{"keystores": [text], "passwords": [password]}\<close>, where
  \<open>text\<close> is the decoded content of the file as read and \<open>password\<close> is the one given
  on the command line.
\<close>

theorem import_sends_raw_text:
  assumes "read_keystore env p = Inr (text, pubkey)" and "pubkey \<notin> set managed"
  shows "\<exists>b req. read_bytes env p = Inr b \<and> decode env b = Inr text
           \<and> issued w (snd (import_one env a pw managed p w)) = [req]
           \<and> url req = str_opt (host a) @ ''/eth/v1/keystores''
           \<and> get_method req = ''POST''
           \<and> data req = Some (encode env (dumps env
                 (JObj [(''keystores'', JArr [JStr text]), (''passwords'', JArr [JStr pw])])))"
proof -
  let ?w1 = "print (''Importing '' @ pubkey @ ''...'') (print thematic_break w)"
  let ?req = "build_request a ''/eth/v1/keystores'' (Some (import_body env text pw))"
  obtain r w2 where rq: "request env a ''/eth/v1/keystores'' (Some (import_body env text pw)) ?w1 = (r, w2)"
    by (cases "request env a ''/eth/v1/keystores'' (Some (import_body env text pw)) ?w1")
  have "sent w2 = sent w @ [?req]"
    using request_world(1)[OF rq] by simp
  then have "issued w (snd (import_one env a pw managed p w)) = [?req]"
    using assms rq by (simp add: import_one_new issued_def split: sum.splits)
  moreover have "data ?req = Some (encode env (dumps env
                   (JObj [(''keystores'', JArr [JStr text]), (''passwords'', JArr [JStr pw])])))"
    by (simp add: import_body_def)
  moreover have "get_method ?req = ''POST''"
    by (simp add: get_method_def)
  ultimately show ?thesis
    using read_keystore_text[OF assms(1)] by auto
qed

theorem import_sends_raw_text_witness:
  \<open>\<exists>req. issued (start []) (snd (import_one (bench ''{"data": []}'') bench_args ''pw'' []
                                   ''keystore-def456.json'' (start []))) = [req]
          \<and> url req = ''http://node:5052/eth/v1/keystores''
          \<and> data req = Some (bench_dumps
                (JObj [(''keystores'', JArr [JStr ''{"version":4,"pubkey":"0xdef456"}'']),
                       (''passwords'', JArr [JStr ''pw''])]))
          \<and> data req \<noteq> Some (bench_dumps
                (JObj [(''keystores'',
                          JArr [JStr (bench_dumps (JObj [(''version'', JNum 4), (''pubkey'', JStr ''0xdef456'')]))]),
                       (''passwords'', JArr [JStr ''pw''])]))\<close>
proof -
  have rd: \<open>read_keystore (bench ''{"data": []}'') ''keystore-def456.json''
              = Inr (''{"version":4,"pubkey":"0xdef456"}'', ''0xdef456'')\<close>
    by (simp add: bench_simps)
  have ne: \<open>quote ''{"version":4,"pubkey":"0xdef456"}''
              \<noteq> quote (bench_dumps (JObj [(''version'', JNum 4), (''pubkey'', JStr ''0xdef456'')]))\<close>
    by (simp add: quote_def)
  show ?thesis
    using import_sends_raw_text[OF rd, of "[]" "start []" bench_args "''pw''"] ne
    by (auto simp: bench_def bench_args_def)
qed

text \<open>
  C6. A keystore file whose pubkey, with \<open>0x\<close> put in front when it does not start with
  it, is in the managed set is skipped: the loop prints the break, the pubkey and the
  skip notice, sends nothing, raises nothing and goes on with the next file. So a file
  with pubkey \<open>abc123\<close> against the managed set \<open>{0xabc123}\<close> is skipped.
\<close>

theorem managed_keystore_is_skipped:
  assumes "read_bytes env p = Inr b" and "decode env b = Inr text" and "loads env text = Inr doc"
    and "getitem doc ''pubkey'' = Inr (JStr raw)"
    and "(if startswith raw ''0x'' then raw else ''0x'' @ raw) \<in> set managed"
  shows "import_all env a pw managed (p # ps) w =
           import_all env a pw managed ps
             (w\<lparr>stdout := stdout w @
                  [thematic_break,
                   ''Importing '' @ (if startswith raw ''0x'' then raw else ''0x'' @ raw) @ ''...'',
                   ''The node already manages this validating pubkey. Skipping this one.'']\<rparr>)"
  using import_one_skip[OF read_keystore_pubkey[OF assms(1-4)] assms(5)]
  by (simp add: print_def)

theorem managed_keystore_is_skipped_witness:
  \<open>import_keystores (bench ''{"data": [{"validating_pubkey": "0xabc123"}]}'') bench_args ''pw''
      [''keystore-abc123.json''] (start []) =
     (Inr 0,
      \<lparr>server = [], sent = [build_request bench_args ''/eth/v1/keystores'' None],
       stdout = [''The node manages the following validators:'', ''0xabc123'',
                 thematic_break, ''Importing 0xabc123...'',
                 ''The node already manages this validating pubkey. Skipping this one.'',
                 thematic_break, ''Success. All keystores imported.''],
       stderr = []\<rparr>)\<close>
proof -
  let ?env = \<open>bench ''{"data": [{"validating_pubkey": "0xabc123"}]}''\<close>
  have 1: \<open>read_bytes ?env ''keystore-abc123.json'' = Inr ''{"version":4,"pubkey":"abc123"}''\<close>
    by (simp add: bench_def bench_files_def)
  have 2: \<open>decode ?env ''{"version":4,"pubkey":"abc123"}'' = Inr ''{"version":4,"pubkey":"abc123"}''\<close>
    by (simp add: bench_def)
  have 3: \<open>loads ?env ''{"version":4,"pubkey":"abc123"}''
             = Inr (JObj [(''version'', JNum 4), (''pubkey'', JStr ''abc123'')])\<close>
    by (simp add: bench_def bench_loads_def documents_def)
  have 4: "getitem (JObj [(''version'', JNum 4), (''pubkey'', JStr ''abc123'')]) ''pubkey''
             = Inr (JStr ''abc123'')"
    by simp
  have 5: "(if startswith ''abc123'' ''0x'' then ''abc123'' else ''0x'' @ ''abc123'') \<in> set [''0xabc123'']"
    by (simp add: startswith_def)
  show ?thesis
    using managed_keystore_is_skipped[OF 1 2 3 4 5, of bench_args "''pw''" "[]"]
    by (simp add: import_keystores_def bench_fetch_abc123 startswith_def print_def)
qed

text \<open>
  C1. The comparison of line 77 is not case-insensitive: the managed set is lower-cased
  (line 64) and the file's pubkey is not (lines 74 and 75). A file with pubkey
  \<open>0xABC\<close> against a node that manages \<open>0xabc\<close> is not skipped; an import request is
  sent for it.
\<close>

theorem uppercase_pubkey_is_not_skipped:
  \<open>\<exists>w1 w'. show_managed (bench ''{"data": [{"validating_pubkey": "0xabc"}]}'') bench_args (start [])
               = (Inr [''0xabc''], w1)
          \<and> read_keystore (bench ''{"data": [{"validating_pubkey": "0xabc"}]}'') ''keystore-ABC.json''
               = Inr (''{"version":4,"pubkey":"0xABC"}'', ''0xABC'')
          \<and> lower ''0xABC'' = ''0xabc''
          \<and> import_keystores (bench ''{"data": [{"validating_pubkey": "0xabc"}]}'') bench_args ''pw''
               [''keystore-ABC.json''] (start []) = (Inr 0, w')
          \<and> filter is_write (sent w') =
               [import_request (bench ''{"data": [{"validating_pubkey": "0xabc"}]}'') bench_args ''pw''
                  ''keystore-ABC.json'']
          \<and> stdout w' =
               [''The node manages the following validators:'', ''0xabc'',
                thematic_break, ''Importing 0xABC...'', ''Keystore imported'',
                thematic_break, ''Success. All keystores imported.'']\<close>
proof -
  let ?env = \<open>bench ''{"data": [{"validating_pubkey": "0xabc"}]}''\<close>
  have rd: \<open>read_keystore ?env ''keystore-ABC.json'' = Inr (''{"version":4,"pubkey":"0xABC"}'', ''0xABC'')\<close>
    by (simp add: bench_simps)
  have lw: "lower ''0xABC'' = ''0xabc''"
    by (simp add: lower_def lower_char_def)
  have one: "\<exists>w2. import_one ?env bench_args ''pw'' [''0xabc''] ''keystore-ABC.json'' w
                    = (Inr (), w2)
                  \<and> sent w2 = sent w @ [import_request ?env bench_args ''pw'' ''keystore-ABC.json'']
                  \<and> stdout w2 = stdout w @ [thematic_break, ''Importing 0xABC...'', ''Keystore imported'']" for w
  proof -
    let ?w1 = "print (''Importing '' @ ''0xABC'' @ ''...'') (print thematic_break w)"
    obtain v w2 where rq: \<open>request ?env bench_args ''/eth/v1/keystores''
                             (Some (import_body ?env ''{"version":4,"pubkey":"0xABC"}'' ''pw'')) ?w1 = (Inr v, w2)\<close>
      using bench_accepts by blast
    show ?thesis
      using request_world[OF rq] rq rd
      by (simp add: import_one_new[OF rd] import_request_def)
  qed
  show ?thesis
    using one[of "snd (show_managed ?env bench_args (start []))"] rd lw
    by (auto simp: import_keystores_def bench_fetch_abc)
qed



text \<open>
  C2. When some entry of the fee-recipient file has a pubkey that is not in the managed
  set, the run sends the listing request and nothing else (no read and no write for any
  entry, the ones before the unmanaged one included), writes to the error stream the
  message that names the first unmanaged pubkey, and returns 1. The file loads and the
  fetch of the managed set succeeds.
\<close>

theorem unmanaged_entry_aborts_before_any_write:
  assumes load: "load_entries env file = Inr es"
    and fetch: "show_managed env a w = (Inr managed, w1)"
    and bad: "\<exists>d\<in>set es. validating_pubkey d \<notin> set managed"
  shows "\<exists>d w'. d \<in> set es \<and> validating_pubkey d \<notin> set managed
           \<and> find (\<lambda>d. validating_pubkey d \<notin> set managed) es = Some d
           \<and> set_fee_recipients env a file w = (Inr 1, w')
           \<and> issued w w' = [build_request a ''/eth/v1/keystores'' None]
           \<and> filter is_write (issued w w') = []
           \<and> stderr w' = stderr w @
                [''ERROR: Validator '' @ validating_pubkey d
                   @ '' is not managed by the connected node.'' @ [CHR 0x0A]]
           \<and> server w' = server w1"
proof -
  obtain d where f: "find (\<lambda>d. validating_pubkey d \<notin> set managed) es = Some d"
    and d: "d \<in> set es" "validating_pubkey d \<notin> set managed"
    using find_unmanaged[OF bad] by blast
  let ?w' = "w1\<lparr>stderr := stderr w1 @ [unmanaged_message (validating_pubkey d)]\<rparr>"
  have run: "set_fee_recipients env a file w = (Inr 1, ?w')"
    using load fetch f by (simp add: set_fee_recipients_def)
  have iss: "issued w ?w' = [build_request a ''/eth/v1/keystores'' None]"
    using show_managed_world(1)[OF fetch] by (simp add: issued_def)
  have err: "stderr ?w' = stderr w @
                [''ERROR: Validator '' @ validating_pubkey d
                   @ '' is not managed by the connected node.'' @ [CHR 0x0A]]"
    using show_managed_world(2)[OF fetch] by (simp add: unmanaged_message_def)
  show ?thesis
    using f d run iss err by (intro exI[of _ d] exI[of _ ?w']) simp
qed

theorem unmanaged_entry_aborts_before_any_write_witness:
  \<open>set_fee_recipients (bench ''{"data": [{"validating_pubkey": "0xaa"}]}'') bench_args ''fee-two.json''
      (start ''{"data": {"ethaddress": "0xCC"}}'') =
     (Inr 1,
      \<lparr>server = ''{"data": {"ethaddress": "0xCC"}}'',
       sent = [build_request bench_args ''/eth/v1/keystores'' None],
       stdout = [''The node manages the following validators:'', ''0xaa''],
       stderr = [''ERROR: Validator 0xdd is not managed by the connected node.'' @ [CHR 0x0A]]\<rparr>)\<close>
proof -
  let ?env = \<open>bench ''{"data": [{"validating_pubkey": "0xaa"}]}''\<close>
  have bad: "\<exists>d\<in>set [\<lparr>validating_pubkey = ''0xaa'', ethaddress = ''0xbb''\<rparr>,
                         \<lparr>validating_pubkey = ''0xdd'', ethaddress = ''0xee''\<rparr>].
               validating_pubkey d \<notin> set [''0xaa'']"
    by simp
  obtain d w' where
    f: "find (\<lambda>d. validating_pubkey d \<notin> set [''0xaa''])
          [\<lparr>validating_pubkey = ''0xaa'', ethaddress = ''0xbb''\<rparr>,
           \<lparr>validating_pubkey = ''0xdd'', ethaddress = ''0xee''\<rparr>] = Some d"
    and run: \<open>set_fee_recipients ?env bench_args ''fee-two.json''
               (start ''{"data": {"ethaddress": "0xCC"}}'') = (Inr 1, w')\<close>
    and iss: \<open>issued (start ''{"data": {"ethaddress": "0xCC"}}'') w'
               = [build_request bench_args ''/eth/v1/keystores'' None]\<close>
    and err: \<open>stderr w' = stderr (start ''{"data": {"ethaddress": "0xCC"}}'') @
                [''ERROR: Validator '' @ validating_pubkey d
                   @ '' is not managed by the connected node.'' @ [CHR 0x0A]]\<close>
    using unmanaged_entry_aborts_before_any_write[OF bench_load_fee_two bench_fetch_aa bad]
    by blast
  have d: "d = \<lparr>validating_pubkey = ''0xdd'', ethaddress = ''0xee''\<rparr>"
    using f by simp
  have w': \<open>w' = \<lparr>server = ''{"data": {"ethaddress": "0xCC"}}'',
                   sent = [build_request bench_args ''/eth/v1/keystores'' None],
                   stdout = [''The node manages the following validators:'', ''0xaa''],
                   stderr = [''ERROR: Validator 0xdd is not managed by the connected node.'' @ [CHR 0x0A]]\<rparr>\<close>
    using run by (simp add: set_fee_recipients_def bench_load_fee_two bench_fetch_aa unmanaged_message_def)
  show ?thesis
    using run w' by simp
qed

text \<open>
  C10. For a fee-recipient file that holds an empty JSON array, the run sends one
  request, the GET of /eth/v1/keystores, prints the success summary after the managed
  validators and returns 0, whatever the managed set is, the empty one included. The
  file reads and the fetch of the managed set succeeds.
\<close>

theorem empty_file_succeeds:
  assumes "read_bytes env file = Inr b" and "decode env b = Inr text"
    and "loads env text = Inr (JArr [])"
    and fetch: "show_managed env a w = (Inr managed, w1)"
  shows "\<exists>w'. set_fee_recipients env a file w = (Inr 0, w')
           \<and> issued w w' = [build_request a ''/eth/v1/keystores'' None]
           \<and> url (build_request a ''/eth/v1/keystores'' None) = str_opt (host a) @ ''/eth/v1/keystores''
           \<and> get_method (build_request a ''/eth/v1/keystores'' None) = ''GET''
           \<and> stdout w' = stdout w1 @ [thematic_break, ''Success. All fee recipients synchronized.'']
           \<and> stderr w' = stderr w"
proof -
  have load: "load_entries env file = Inr []"
    using assms(1-3) by (simp add: load_entries_def)
  let ?w' = "print ''Success. All fee recipients synchronized.'' (print thematic_break w1)"
  have "set_fee_recipients env a file w = (Inr 0, ?w')"
    using load fetch by (simp add: set_fee_recipients_def)
  moreover have "issued w ?w' = [build_request a ''/eth/v1/keystores'' None]"
    using show_managed_world(1)[OF fetch] by (simp add: issued_def)
  moreover have "stderr ?w' = stderr w"
    using show_managed_world(2)[OF fetch] by simp
  ultimately show ?thesis
    by (intro exI[of _ ?w']) (simp add: get_method_def)
qed

theorem empty_file_succeeds_witness:
  \<open>set_fee_recipients (bench ''{"data": []}'') bench_args ''empty.json'' (start []) =
     (Inr 0,
      \<lparr>server = [],
       sent = [\<lparr>url = ''http://node:5052/eth/v1/keystores'', data = None,
                headers = [(''authorization'', ''Bearer secret''), (''accept'', ''application/json'')]\<rparr>],
       stdout = [''The node manages the following validators:'', thematic_break,
                 ''Success. All fee recipients synchronized.''],
       stderr = []\<rparr>)\<close>
proof -
  let ?env = \<open>bench ''{"data": []}''\<close>
  have 1: "read_bytes ?env ''empty.json'' = Inr ''[]''"
    by (simp add: bench_def bench_files_def)
  have 2: "decode ?env ''[]'' = Inr ''[]''"
    by (simp add: bench_def)
  have 3: "loads ?env ''[]'' = Inr (JArr [])"
    by (simp add: bench_def bench_loads_def documents_def)
  obtain w' where run: "set_fee_recipients ?env bench_args ''empty.json'' (start []) = (Inr 0, w')"
    and iss: "issued (start []) w' = [build_request bench_args ''/eth/v1/keystores'' None]"
    using empty_file_succeeds[OF 1 2 3 bench_fetch_none[of "[]"]] by blast
  have req: "build_request bench_args ''/eth/v1/keystores'' None =
               \<lparr>url = ''http://node:5052/eth/v1/keystores'', data = None,
                headers = [(''authorization'', ''Bearer secret''), (''accept'', ''application/json'')]\<rparr>"
    by (simp add: build_request_def bench_args_def add_header_def)
  have "w' = \<lparr>server = [], sent = [build_request bench_args ''/eth/v1/keystores'' None],
               stdout = [''The node manages the following validators:'', thematic_break,
                         ''Success. All fee recipients synchronized.''],
               stderr = []\<rparr>"
    using run by (simp add: set_fee_recipients_def load_entries_def 1 2 3 bench_fetch_none print_def)
  then show ?thesis
    using run req by simp
qed




text \<open>
  C8. When the host, or the token, is given neither on the command line nor in its
  environment variable, the program writes the usage and the error message to the
  error stream and exits with status 2; it prints nothing, sends no request and runs
  no subcommand.
\<close>

theorem missing_configuration_is_usage_error:
  assumes "(host_opt cl = None \<and> environ env api_host_env_key = None)
             \<or> (auth_opt cl = None \<and> environ env api_auth_env_key = None)"
  shows "main env cl w = (Inr 2, w\<lparr>stderr := stderr w @ [usage env, missing_message]\<rparr>)
           \<and> exit_status (fst (main env cl w)) \<noteq> 0
           \<and> issued w (snd (main env cl w)) = []
           \<and> stdout (snd (main env cl w)) = stdout w
           \<and> server (snd (main env cl w)) = server w"
proof -
  have "\<not> truthy (auth (parse_args env cl)) \<or> \<not> truthy (host (parse_args env cl))"
    using assms by (auto simp: parse_args_def)
  then have "main env cl w = (Inr 2, w\<lparr>stderr := stderr w @ [usage env, missing_message]\<rparr>)"
    by (auto simp: main_def parser_error_def Let_def)
  then show ?thesis
    by (simp add: issued_def)
qed

theorem missing_configuration_is_usage_error_witness:
  "main (bench []) \<lparr>host_opt = Some ''http://node:5052'', auth_opt = None,
                     command = ImportKeystores ''pw'' [''keystore-def456.json'']\<rparr> (start [])
     = (Inr 2, \<lparr>server = [], sent = [], stdout = [],
                stderr = [usage (bench []), missing_message]\<rparr>)"
proof -
  have "(host_opt \<lparr>host_opt = Some ''http://node:5052'', auth_opt = None,
                    command = ImportKeystores ''pw'' [''keystore-def456.json'']\<rparr> = None
           \<and> environ (bench []) api_host_env_key = None)
        \<or> (auth_opt \<lparr>host_opt = Some ''http://node:5052'', auth_opt = None,
                      command = ImportKeystores ''pw'' [''keystore-def456.json'']\<rparr> = None
           \<and> environ (bench []) api_auth_env_key = None)"
    by (simp add: bench_def)
  from missing_configuration_is_usage_error[OF this, of "start []"]
  show ?thesis
    by (simp add: start_def)
qed

end
